theory Spec2Isabelle
  imports Complex_Main
begin

section \<open>Python values, exceptions and the object-relational layer\<close>

text \<open>
  Primary keys are UUIDs; a UUID is represented by its canonical text. Instants of time
  (\<open>timezone.now()\<close>, \<open>DateTimeField\<close>) are seconds on the integer time line.
\<close>

type_synonym uuid = string
type_synonym datetime = int

datatype py_error =
    TypeError
  | ZeroDivisionError
  | IntegrityError
  | DatabaseError
  | FieldError
  | InvalidOperation

text \<open>
  A float is represented by the real number it denotes. Every arithmetic operation on
  floats returns the exact result rounded to a float; the rounding function of the
  interpreter's binary floating point is the parameter \<open>rnd\<close> of the operations below, and
  nothing is assumed about it. True division raises on a zero divisor.
\<close>

definition float_add :: "(real \<Rightarrow> real) \<Rightarrow> real \<Rightarrow> real \<Rightarrow> real" where
  "float_add rnd a b = rnd (a + b)"

definition float_sub :: "(real \<Rightarrow> real) \<Rightarrow> real \<Rightarrow> real \<Rightarrow> real" where
  "float_sub rnd a b = rnd (a - b)"


definition py_truediv :: "(real \<Rightarrow> real) \<Rightarrow> real \<Rightarrow> real \<Rightarrow> py_error + real" where
  "py_truediv rnd a b = (if b = 0 then Inl ZeroDivisionError else Inr (rnd (a / b)))"

text \<open>
  A \<open>DecimalField(max_digits, decimal_places)\<close> column is written through
  \<open>Decimal.quantize\<close>: the value is rounded half-even to \<open>decimal_places\<close> places, and
  \<open>InvalidOperation\<close> is raised when the rounded value needs more than \<open>max_digits\<close>
  digits.
\<close>

definition round_half_even :: "real \<Rightarrow> int" where
  "round_half_even x =
     (let f = \<lfloor>x\<rfloor>; d = x - of_int f
      in if d < 1 / 2 then f else if 1 / 2 < d then f + 1 else if even f then f else f + 1)"

definition quantize :: "nat \<Rightarrow> real \<Rightarrow> real" where
  "quantize places x = of_int (round_half_even (x * 10 ^ places)) / 10 ^ places"

text \<open>
  Rounding to \<open>prec\<close> significant digits in a base, half-even: the arithmetic context of
  \<open>Decimal\<close> (base 10, 28 digits by default, 15 where the framework converts a float for a
  column of 15 digits) and the binary floats of Python (base 2, 53 digits; overflow to
  infinity aside).
\<close>

definition round_significant :: "nat \<Rightarrow> nat \<Rightarrow> real \<Rightarrow> real" where
  "round_significant base prec x =
     (if x = 0 then 0
      else (let k = int prec - (\<lfloor>log (real base) \<bar>x\<bar>\<rfloor> + 1);
                s = real base powr of_int k
            in of_int (round_half_even (x * s)) / s))"

definition DecimalField_to_db :: "nat \<Rightarrow> nat \<Rightarrow> real \<Rightarrow> py_error + real" where
  "DecimalField_to_db max_digits decimal_places x =
     (let q = quantize decimal_places x
      in if \<bar>q\<bar> * 10 ^ decimal_places < 10 ^ max_digits then Inr q
         else Inl InvalidOperation)"

text \<open>
  A \<open>DecimalField\<close> attribute holds a \<open>Decimal\<close>, unless the model default put a float
  there (\<open>total_spent = DecimalField(default=0.0)\<close>). Python subtracts two decimals, in the
  decimal context, or two floats, and raises \<open>TypeError\<close> on a \<open>Decimal\<close> and a \<open>float\<close>.
\<close>

datatype pynum = PyDecimal real | PyFloat real

fun num_val :: "pynum \<Rightarrow> real" where
  "num_val (PyDecimal x) = x"
| "num_val (PyFloat x) = x"

fun py_sub :: "pynum \<Rightarrow> pynum \<Rightarrow> py_error + pynum" where
  "py_sub (PyDecimal a) (PyDecimal b) = Inr (PyDecimal (round_significant 10 28 (a - b)))"
| "py_sub (PyFloat a) (PyFloat b) = Inr (PyFloat (round_significant 2 53 (a - b)))"
| "py_sub (PyDecimal a) (PyFloat b) = Inl TypeError"
| "py_sub (PyFloat a) (PyDecimal b) = Inl TypeError"

text \<open>
  A table is the list of its rows. The keyword arguments of \<open>QuerySet.filter\<close> are
  lookups on a column; a column reached through a nullable relation or declared
  \<open>null=True\<close> may be NULL, and a comparison with NULL selects nothing.
\<close>

datatype 'r lookup =
    Gte "'r \<Rightarrow> real option" real
  | Lte "'r \<Rightarrow> real option" real
  | Exact "'r \<Rightarrow> bool option" bool

fun lookup_holds :: "'r lookup \<Rightarrow> 'r \<Rightarrow> bool" where
  "lookup_holds (Gte col v) r = (case col r of None \<Rightarrow> False | Some x \<Rightarrow> v \<le> x)"
| "lookup_holds (Lte col v) r = (case col r of None \<Rightarrow> False | Some x \<Rightarrow> x \<le> v)"
| "lookup_holds (Exact col v) r = (case col r of None \<Rightarrow> False | Some x \<Rightarrow> x = v)"

definition qs_filter :: "'r lookup list \<Rightarrow> 'r list \<Rightarrow> 'r list" where
  "qs_filter conds rows = filter (\<lambda>r. list_all (\<lambda>c. lookup_holds c r) conds) rows"

text \<open>
  A manager knows the model it is bound to. A manager declared in the class body is bound
  when the class is created; a manager assigned to the class afterwards is not, and its
  \<open>model\<close> stays \<open>None\<close>. A query with lookups resolves their keywords against the model;
  with no model, the framework raises \<open>FieldError\<close>, before any row is read.
\<close>

record Manager =
  model :: "string option"

definition resolve_lookups :: "Manager \<Rightarrow> py_error + unit" where
  "resolve_lookups self = (case model self of None \<Rightarrow> Inl FieldError | Some m \<Rightarrow> Inr ())"

definition manager_filter :: "Manager \<Rightarrow> 'r lookup list \<Rightarrow> 'r list \<Rightarrow> py_error + 'r list" where
  "manager_filter self conds rows =
     (case resolve_lookups self of
        Inl e \<Rightarrow> Inl e
      | Inr u \<Rightarrow> Inr (qs_filter conds rows))"

text \<open>
  \<open>Listing.objects = ListingManager()\<close> is the last line of property/models.py, after the
  class \<open>Listing\<close> is built: the manager that the repository ships is unbound.
  \<open>objects = CustomUserManager()\<close> stands in the body of the class \<open>User\<close>.
\<close>

definition Listing_objects :: Manager where
  "Listing_objects = \<lparr>model = None\<rparr>"

definition User_objects :: Manager where
  "User_objects = \<lparr>model = Some ''User''\<rparr>"

definition bound_ListingManager :: Manager where
  "bound_ListingManager = \<lparr>model = Some ''Listing''\<rparr>"

text \<open>
  \<open>Model.save()\<close> of the framework: UPDATE the row with the instance's primary key, and
  INSERT when no row has it. \<open>get_by_pk\<close> is the lookup of a row by primary key.
\<close>

definition get_by_pk :: "('r \<Rightarrow> uuid) \<Rightarrow> uuid \<Rightarrow> 'r list \<Rightarrow> 'r option" where
  "get_by_pk pk k rows = find (\<lambda>r. pk r = k) rows"

definition model_save :: "('r \<Rightarrow> uuid) \<Rightarrow> 'r \<Rightarrow> 'r list \<Rightarrow> 'r list" where
  "model_save pk self rows =
     (if list_ex (\<lambda>r. pk r = pk self) rows
      then map (\<lambda>r. if pk r = pk self then self else r) rows
      else rows @ [self])"

section \<open>The property application: records\<close>

text \<open>
  Each record carries the columns that the verified operations read or write and a few of
  the others; \<open>Listing\<close> is used through its extensible scheme, whose extension part stands
  for the remaining columns.
\<close>

record Address =
  address_id :: uuid
  latitude :: real
  longitude :: real

record Property =
  property_id :: uuid
  address :: "uuid option"

record Listing =
  listing_id :: uuid
  "property" :: uuid
  price :: real
  bedrooms :: nat
  is_active :: bool
  listed_date :: "datetime option"
  contract_date :: "datetime option"
  days_on_market :: int
  views_count :: int
  inquiries_count :: int

record MapCluster =
  cluster_id :: uuid
  center_latitude :: real
  center_longitude :: real
  radius_km :: real
  property_count :: nat
  listing_count :: nat
  avg_price :: "real option"
  last_updated :: datetime

record 'a property_db =
  addresses :: "Address list"
  properties :: "Property list"
  listings :: "'a Listing_scheme list"
  map_clusters :: "MapCluster list"
  cache :: "(string \<times> 'a Listing_scheme) list"

text \<open>
  The columns \<open>property__address__latitude\<close> and \<open>property__address__longitude\<close> of a
  listing: the join through \<open>Listing.property\<close> and the nullable \<open>Property.address\<close>.
\<close>

definition listing_address :: "'a property_db \<Rightarrow> 'a Listing_scheme \<Rightarrow> Address option" where
  "listing_address db l =
     (case get_by_pk property_id (property l) (properties db) of
        None \<Rightarrow> None
      | Some p \<Rightarrow>
          (case address p of
             None \<Rightarrow> None
           | Some a \<Rightarrow> get_by_pk address_id a (addresses db)))"

definition property__address__latitude :: "'a property_db \<Rightarrow> 'a Listing_scheme \<Rightarrow> real option" where
  "property__address__latitude db l = map_option latitude (listing_address db l)"

definition property__address__longitude :: "'a property_db \<Rightarrow> 'a Listing_scheme \<Rightarrow> real option" where
  "property__address__longitude db l = map_option longitude (listing_address db l)"

section \<open>The proximity filter\<close>

text \<open>
  \<open>ListingManager.within_radius\<close> (property/models.py); \<open>self\<close> is the manager the method
  is called on. Python evaluates the keyword arguments, \<open>radius_km / 111\<close> once in each
  with the same outcome, and then calls \<open>self.filter\<close>.
\<close>

definition within_radius ::
  "Manager \<Rightarrow> (real \<Rightarrow> real) \<Rightarrow> 'a property_db \<Rightarrow> real \<Rightarrow> real \<Rightarrow> real
     \<Rightarrow> py_error + 'a Listing_scheme list" where
  "within_radius self rnd db lat lon radius =
     (case py_truediv rnd radius 111 of
        Inl e \<Rightarrow> Inl e
      | Inr d \<Rightarrow>
          manager_filter self
            [Gte (property__address__latitude db) (float_sub rnd lat d),
             Lte (property__address__latitude db) (float_add rnd lat d),
             Gte (property__address__longitude db) (float_sub rnd lon d),
             Lte (property__address__longitude db) (float_add rnd lon d),
             Exact (\<lambda>l. Some (is_active l)) True]
            (listings db))"

text \<open>\<open>ListingManager.active_listings\<close>.\<close>

definition active_listings :: "Manager \<Rightarrow> 'a Listing_scheme list \<Rightarrow> py_error + 'a Listing_scheme list" where
  "active_listings self rows = manager_filter self [Exact (\<lambda>l. Some (is_active l)) True] rows"

text \<open>
  \<open>CustomUserManager.nearby_users\<close> (users/models.py); both location columns of a user
  are nullable, and there is no other condition.
\<close>

record User =
  user_id :: uuid
  email :: string
  primary_location_latitude :: "real option"
  primary_location_longitude :: "real option"

definition nearby_users ::
  "Manager \<Rightarrow> (real \<Rightarrow> real) \<Rightarrow> User list \<Rightarrow> real \<Rightarrow> real \<Rightarrow> real
     \<Rightarrow> py_error + User list" where
  "nearby_users self rnd users lat lon distance_km =
     (case py_truediv rnd distance_km 111 of
        Inl e \<Rightarrow> Inl e
      | Inr d \<Rightarrow>
          manager_filter self
            [Gte primary_location_latitude (float_sub rnd lat d),
             Lte primary_location_latitude (float_add rnd lat d),
             Gte primary_location_longitude (float_sub rnd lon d),
             Lte primary_location_longitude (float_add rnd lon d)]
            users)"

text \<open>Example data: a listing and a user in Manhattan, and an inactive copy of the listing.\<close>

definition nyc_address :: Address where
  "nyc_address = \<lparr>address_id = ''a1'', latitude = 40.7128, longitude = -74.0060\<rparr>"

definition nyc_property :: Property where
  "nyc_property = \<lparr>property_id = ''p1'', address = Some ''a1''\<rparr>"

definition nyc_listing :: Listing where
  "nyc_listing =
     \<lparr>listing_id = ''l1'', property = ''p1'', price = 500000, bedrooms = 2, is_active = True,
      listed_date = Some 0, contract_date = None, days_on_market = 0, views_count = 7,
      inquiries_count = 0\<rparr>"

definition nyc_db :: "unit property_db" where
  "nyc_db =
     \<lparr>addresses = [nyc_address], properties = [nyc_property], listings = [nyc_listing],
      map_clusters = [], cache = []\<rparr>"


definition nyc_user :: User where
  "nyc_user =
     \<lparr>user_id = ''u1'', email = ''a@example.org'',
      primary_location_latitude = Some 40.7128, primary_location_longitude = Some (-74.0060)\<rparr>"

definition far_user :: User where
  "far_user =
     \<lparr>user_id = ''u9'', email = ''b@example.org'',
      primary_location_latitude = Some 95, primary_location_longitude = Some 200\<rparr>"

text \<open>
  A decimal rounding to nine places stands in for the rounding of the floats where an
  example needs a concrete one.
\<close>

definition round9 :: "real \<Rightarrow> real" where
  "round9 x = quantize 9 x"



section \<open>The main application: SystemConfig\<close>

text \<open>
  \<open>QuerySet.update\<close> rewrites the selected rows in place.
\<close>

definition qs_update :: "('r \<Rightarrow> bool) \<Rightarrow> ('r \<Rightarrow> 'r) \<Rightarrow> 'r list \<Rightarrow> 'r list" where
  "qs_update sel upd rows = map (\<lambda>r. if sel r then upd r else r) rows"

record SystemConfig =
  config_id :: uuid
  name :: string
  version :: string
  is_active :: bool
  maintenance_mode :: bool
  default_currency :: string
  max_upload_size_mb :: nat

text \<open>
  \<open>name\<close> and \<open>version\<close> are declared \<open>unique=True\<close>: the database refuses a row that
  repeats either in another row, and the framework raises \<open>IntegrityError\<close>.
\<close>

definition SystemConfig_unique_violation :: "SystemConfig \<Rightarrow> SystemConfig list \<Rightarrow> bool" where
  "SystemConfig_unique_violation self rows =
     list_ex (\<lambda>r. config_id r \<noteq> config_id self \<and>
                   (name r = name self \<or> version r = version self)) rows"

text \<open>
  \<open>SystemConfig.save\<close> (main/models.py), called as \<open>save()\<close>. The deactivating UPDATE is
  its own statement and stays in the table when the write of the instance fails
  afterwards; the result is the exception, if any, and the table.
\<close>

definition SystemConfig_save ::
  "SystemConfig \<Rightarrow> SystemConfig list \<Rightarrow> py_error option \<times> SystemConfig list" where
  "SystemConfig_save self rows =
     (let rows1 =
        (if is_active self
         then qs_update (\<lambda>r. is_active r \<and> config_id r \<noteq> config_id self)
                (\<lambda>r. r\<lparr>is_active := False\<rparr>) rows
         else rows)
      in if SystemConfig_unique_violation self rows1
         then (Some IntegrityError, rows1)
         else (None, model_save config_id self rows1))"

text \<open>A sequence of saves by a single writer, one after the other.\<close>

fun save_all :: "SystemConfig list \<Rightarrow> SystemConfig list \<Rightarrow> SystemConfig list" where
  "save_all [] rows = rows"
| "save_all (c # cs) rows = save_all cs (snd (SystemConfig_save c rows))"

definition config_v1 :: SystemConfig where
  "config_v1 =
     \<lparr>config_id = ''c1'', name = ''base'', version = ''v1.0.0'', is_active = True,
      maintenance_mode = False, default_currency = ''USD'', max_upload_size_mb = 10\<rparr>"

definition config_v2 :: SystemConfig where
  "config_v2 =
     \<lparr>config_id = ''c2'', name = ''next'', version = ''v2.0.0'', is_active = True,
      maintenance_mode = False, default_currency = ''USD'', max_upload_size_mb = 10\<rparr>"

section \<open>The main application: AdCampaign\<close>

text \<open>
  \<open>budget\<close> and \<open>total_spent\<close> are \<open>DecimalField\<close>s without \<open>null=True\<close>; an instance in
  memory may still hold \<open>None\<close> there, and the database then refuses the row.
\<close>

record AdCampaign =
  campaign_id :: uuid
  user :: uuid
  name :: string
  status :: string
  budget :: "pynum option"
  total_spent :: "pynum option"
  remaining_budget :: "pynum option"

text \<open>
  The three amounts are \<open>DecimalField(max_digits=15, decimal_places=2)\<close> columns. The
  framework prepares each for the database, a float being converted first to a decimal of
  15 significant digits, and then writes the row: the stored row holds the rounded
  amounts, the instance in memory keeps its own. A \<open>None\<close> in \<open>budget\<close> or \<open>total_spent\<close> is
  refused by the database.
\<close>

fun to_python :: "pynum \<Rightarrow> real" where
  "to_python (PyDecimal x) = x"
| "to_python (PyFloat x) = round_significant 10 15 x"

definition prep_amount :: "pynum option \<Rightarrow> py_error + pynum option" where
  "prep_amount v =
     (case v of
        None \<Rightarrow> Inr None
      | Some x \<Rightarrow>
          (case DecimalField_to_db 15 2 (to_python x) of
             Inl e \<Rightarrow> Inl e
           | Inr q \<Rightarrow> Inr (Some (PyDecimal q))))"

definition AdCampaign_base_save ::
  "AdCampaign \<Rightarrow> AdCampaign list \<Rightarrow> py_error + AdCampaign \<times> AdCampaign list" where
  "AdCampaign_base_save self rows =
     (case prep_amount (budget self) of
        Inl e \<Rightarrow> Inl e
      | Inr qb \<Rightarrow>
          (case prep_amount (total_spent self) of
             Inl e \<Rightarrow> Inl e
           | Inr qt \<Rightarrow>
               (case prep_amount (remaining_budget self) of
                  Inl e \<Rightarrow> Inl e
                | Inr qr \<Rightarrow>
                    if qb = None \<or> qt = None then Inl IntegrityError
                    else Inr (self,
                              model_save campaign_id
                                (self\<lparr>budget := qb, total_spent := qt, remaining_budget := qr\<rparr>)
                                rows))))"

text \<open>
  \<open>AdCampaign.save\<close> (main/models.py), called as \<open>save()\<close>: the instance gets its
  \<open>remaining_budget\<close>, then the framework writes it. The result is the instance and the
  table, or the exception, in which case nothing was written.
\<close>

definition AdCampaign_save ::
  "AdCampaign \<Rightarrow> AdCampaign list \<Rightarrow> py_error + AdCampaign \<times> AdCampaign list" where
  "AdCampaign_save self rows =
     (case (budget self, total_spent self) of
        (Some b, Some t) \<Rightarrow>
          (case py_sub b t of
             Inl e \<Rightarrow> Inl e
           | Inr d \<Rightarrow> AdCampaign_base_save (self\<lparr>remaining_budget := Some d\<rparr>) rows)
      | _ \<Rightarrow> AdCampaign_base_save self rows)"

definition fine_campaign :: AdCampaign where
  "fine_campaign =
     \<lparr>campaign_id = ''k7'', user = ''u1'', name = ''fine print'', status = ''draft'',
      budget = Some (PyDecimal 100.004), total_spent = Some (PyDecimal 0.006),
      remaining_budget = None\<rparr>"

definition spring_campaign :: AdCampaign where
  "spring_campaign =
     \<lparr>campaign_id = ''k1'', user = ''u1'', name = ''spring'', status = ''draft'',
      budget = Some (PyDecimal 100), total_spent = Some (PyDecimal 30.5),
      remaining_budget = None\<rparr>"

section \<open>The main application: Message\<close>

text \<open>
  The extension part of the \<open>Message\<close> scheme stands for the columns that no verified
  operation touches (message type, attachment, priority, delivery status, ...).
\<close>

record Message =
  message_id :: uuid
  sender :: uuid
  recipient :: uuid
  subject :: string
  body :: string
  sent_at :: datetime
  read_at :: "datetime option"
  is_read :: bool

text \<open>
  \<open>Message.mark_as_read\<close> (main/models.py); \<open>now\<close> is the value of \<open>timezone.now()\<close> at
  the call. \<open>Message\<close> does not override \<open>save\<close>. The result is the instance and the table.
\<close>

definition mark_as_read ::
  "datetime \<Rightarrow> 'a Message_scheme \<Rightarrow> 'a Message_scheme list
     \<Rightarrow> 'a Message_scheme \<times> 'a Message_scheme list" where
  "mark_as_read now self rows =
     (if \<not> is_read self
      then (let self1 = self\<lparr>is_read := True\<rparr>;
                self2 = self1\<lparr>read_at := Some now\<rparr>
            in (self2, model_save message_id self2 rows))
      else (self, rows))"

section \<open>The main application: request handlers\<close>

datatype http_status =
    HTTP_200_OK
  | HTTP_201_CREATED
  | HTTP_204_NO_CONTENT
  | HTTP_400_BAD_REQUEST
  | HTTP_403_FORBIDDEN
  | HTTP_404_NOT_FOUND
  | HTTP_500_INTERNAL_SERVER_ERROR

text \<open>
  A request carries its authenticated user; \<open>None\<close> is the anonymous user. The handlers
  below declare \<open>permission_classes = [IsAuthenticated]\<close>: the REST framework checks it
  before the handler runs and, under the project's settings (no authentication classes
  configured, so session authentication comes first), answers an anonymous request with
  403. \<open>get_object_or_404\<close> raises \<open>Http404\<close>, answered with 404, when no row matches.
\<close>

record Request =
  user :: "uuid option"

definition IsAuthenticated :: "Request \<Rightarrow> bool" where
  "IsAuthenticated request = (Request.user request \<noteq> None)"

definition get_object_or_404 :: "('r \<Rightarrow> bool) \<Rightarrow> 'r list \<Rightarrow> 'r option" where
  "get_object_or_404 cond rows = find cond rows"

text \<open>\<open>MarkMessageReadAPIView.post\<close> (main/views.py).\<close>

definition MarkMessageReadAPIView_post ::
  "datetime \<Rightarrow> Request \<Rightarrow> uuid \<Rightarrow> 'a Message_scheme list
     \<Rightarrow> http_status \<times> 'a Message_scheme list" where
  "MarkMessageReadAPIView_post now request mid messages =
     (if \<not> IsAuthenticated request then (HTTP_403_FORBIDDEN, messages)
      else
        (case get_object_or_404
                (\<lambda>m. message_id m = mid \<and> Some (recipient m) = Request.user request) messages of
           None \<Rightarrow> (HTTP_404_NOT_FOUND, messages)
         | Some message \<Rightarrow> (HTTP_200_OK, snd (mark_as_read now message messages))))"

text \<open>
  The body of a create or update request for a campaign, as far as the modelled columns go.
  The serializer rejects a negative budget (\<open>MinValueValidator(0)\<close>); \<open>total_spent\<close> is
  optional, since the model gives it a default.
\<close>

record CampaignData =
  data_name :: string
  data_budget :: real
  data_total_spent :: "real option"

definition is_valid :: "CampaignData \<Rightarrow> bool" where
  "is_valid data = (0 \<le> data_budget data)"

text \<open>
  \<open>AdCampaignDetailAPIView\<close>: \<open>get_queryset\<close> keeps the campaigns of the requesting user, and
  \<open>get_object\<close> looks the campaign up in that queryset. Update writes the validated fields
  into the instance and saves it; destroy deletes the row. An exception that escapes the
  handler is answered with 500.
\<close>

definition AdCampaignDetailAPIView_get_queryset :: "Request \<Rightarrow> AdCampaign list \<Rightarrow> AdCampaign list" where
  "AdCampaignDetailAPIView_get_queryset request campaigns =
     filter (\<lambda>c. Some (AdCampaign.user c) = Request.user request) campaigns"

definition serializer_update :: "CampaignData \<Rightarrow> AdCampaign \<Rightarrow> AdCampaign" where
  "serializer_update data instance =
     (let i1 = instance\<lparr>AdCampaign.name := data_name data\<rparr>;
          i2 = i1\<lparr>budget := Some (PyDecimal (data_budget data))\<rparr>
      in case data_total_spent data of
           None \<Rightarrow> i2
         | Some t \<Rightarrow> i2\<lparr>total_spent := Some (PyDecimal t)\<rparr>)"

definition AdCampaignDetailAPIView_put ::
  "Request \<Rightarrow> uuid \<Rightarrow> CampaignData \<Rightarrow> AdCampaign list \<Rightarrow> http_status \<times> AdCampaign list" where
  "AdCampaignDetailAPIView_put request cid data campaigns =
     (if \<not> IsAuthenticated request then (HTTP_403_FORBIDDEN, campaigns)
      else
        (case get_object_or_404 (\<lambda>c. campaign_id c = cid)
                (AdCampaignDetailAPIView_get_queryset request campaigns) of
           None \<Rightarrow> (HTTP_404_NOT_FOUND, campaigns)
         | Some instance \<Rightarrow>
             if \<not> is_valid data then (HTTP_400_BAD_REQUEST, campaigns)
             else
               (case AdCampaign_save (serializer_update data instance) campaigns of
                  Inl e \<Rightarrow> (HTTP_500_INTERNAL_SERVER_ERROR, campaigns)
                | Inr (saved, rows) \<Rightarrow> (HTTP_200_OK, rows))))"

definition AdCampaignDetailAPIView_delete ::
  "Request \<Rightarrow> uuid \<Rightarrow> AdCampaign list \<Rightarrow> http_status \<times> AdCampaign list" where
  "AdCampaignDetailAPIView_delete request cid campaigns =
     (if \<not> IsAuthenticated request then (HTTP_403_FORBIDDEN, campaigns)
      else
        (case get_object_or_404 (\<lambda>c. campaign_id c = cid)
                (AdCampaignDetailAPIView_get_queryset request campaigns) of
           None \<Rightarrow> (HTTP_404_NOT_FOUND, campaigns)
         | Some instance \<Rightarrow>
             (HTTP_204_NO_CONTENT,
              filter (\<lambda>c. campaign_id c \<noteq> campaign_id instance) campaigns)))"

text \<open>
  \<open>AdCampaignListCreateAPIView\<close>, POST: \<open>perform_create\<close> saves a new instance owned by the
  requesting user. \<open>new_id\<close> is the fresh \<open>uuid4\<close> of the instance; the columns absent from
  the body take the model defaults (\<open>status = 'draft'\<close>, \<open>total_spent = 0.0\<close>). The row is
  inserted, never updated: a primary key already in the table is an \<open>IntegrityError\<close>.
\<close>

definition AdCampaignListCreateAPIView_post ::
  "Request \<Rightarrow> uuid \<Rightarrow> CampaignData \<Rightarrow> AdCampaign list \<Rightarrow> http_status \<times> AdCampaign list" where
  "AdCampaignListCreateAPIView_post request new_id data campaigns =
     (case Request.user request of
        None \<Rightarrow> (HTTP_403_FORBIDDEN, campaigns)
      | Some u \<Rightarrow>
          if \<not> is_valid data then (HTTP_400_BAD_REQUEST, campaigns)
          else if list_ex (\<lambda>c. campaign_id c = new_id) campaigns
          then (HTTP_500_INTERNAL_SERVER_ERROR, campaigns)
          else
            (case AdCampaign_save
                    \<lparr>campaign_id = new_id, user = u, name = data_name data, status = ''draft'',
                     budget = Some (PyDecimal (data_budget data)),
                     total_spent =
                       (case data_total_spent data of
                          None \<Rightarrow> Some (PyFloat 0)
                        | Some t \<Rightarrow> Some (PyDecimal t)),
                     remaining_budget = None\<rparr>
                    campaigns of
               Inl e \<Rightarrow> (HTTP_500_INTERNAL_SERVER_ERROR, campaigns)
             | Inr (saved, rows) \<Rightarrow> (HTTP_201_CREATED, rows)))"

definition hello_message :: Message where
  "hello_message =
     \<lparr>message_id = ''m1'', sender = ''u1'', recipient = ''u2'', subject = ''hello'',
      body = ''is the flat still free?'', sent_at = 1000, read_at = None, is_read = False\<rparr>"

definition spring_data :: CampaignData where
  "spring_data = \<lparr>data_name = ''summer'', data_budget = 250, data_total_spent = Some 0\<rparr>"

section \<open>The property application: cache, listing detail and map clusters\<close>

text \<open>
  The external cache is a key-value store; the entries modelled are the serialized
  listings that \<open>ListingDetailView\<close> stores, each a dictionary of the listing's columns and
  therefore truthy. An expired entry is an absent entry.
\<close>

definition cache_get :: "string \<Rightarrow> (string \<times> 'v) list \<Rightarrow> 'v option" where
  "cache_get k c = map_of c k"

definition cache_set :: "string \<Rightarrow> 'v \<Rightarrow> (string \<times> 'v) list \<Rightarrow> (string \<times> 'v) list" where
  "cache_set k v c = (k, v) # filter (\<lambda>e. fst e \<noteq> k) c"


text \<open>
  \<open>Listing.save\<close> (property/models.py), called with \<open>update_fields\<close>. It recomputes
  \<open>days_on_market\<close> on the instance when both dates are set (\<open>timedelta.days\<close> is the floor
  of the difference in days); the framework then issues an UPDATE of the named columns
  only, on the row with the instance's primary key, and raises \<open>DatabaseError\<close> when no row
  has it. The columns that \<open>write_columns\<close> knows are the integer, boolean and date columns
  of the record; the repository passes \<open>update_fields\<close> for counters only.
\<close>

definition write_columns ::
  "string list \<Rightarrow> 'a Listing_scheme \<Rightarrow> 'a Listing_scheme \<Rightarrow> 'a Listing_scheme" where
  "write_columns update_fields src dst =
     (let d2 = (if ''bedrooms'' \<in> set update_fields then dst\<lparr>bedrooms := bedrooms src\<rparr> else dst);
          d3 = (if ''is_active'' \<in> set update_fields
                then d2\<lparr>Listing.is_active := Listing.is_active src\<rparr> else d2);
          d4 = (if ''contract_date'' \<in> set update_fields
                then d3\<lparr>contract_date := contract_date src\<rparr> else d3);
          d5 = (if ''days_on_market'' \<in> set update_fields
                then d4\<lparr>days_on_market := days_on_market src\<rparr> else d4);
          d6 = (if ''views_count'' \<in> set update_fields
                then d5\<lparr>views_count := views_count src\<rparr> else d5)
      in if ''inquiries_count'' \<in> set update_fields
         then d6\<lparr>inquiries_count := inquiries_count src\<rparr> else d6)"

definition Listing_save ::
  "string list \<Rightarrow> 'a Listing_scheme \<Rightarrow> 'a Listing_scheme list
     \<Rightarrow> py_error + 'a Listing_scheme \<times> 'a Listing_scheme list" where
  "Listing_save update_fields self rows =
     (let self1 =
        (case (contract_date self, listed_date self) of
           (Some c, Some l) \<Rightarrow> self\<lparr>days_on_market := (c - l) div 86400\<rparr>
         | _ \<Rightarrow> self)
      in if list_ex (\<lambda>r. listing_id r = listing_id self1) rows
         then Inr (self1,
                   map (\<lambda>r. if listing_id r = listing_id self1
                             then write_columns update_fields self1 r else r) rows)
         else Inl DatabaseError)"

text \<open>
  Importing property/views.py evaluates the class bodies. The body of
  \<open>ListingListCreateView\<close> holds \<open>queryset = Listing.objects.active_listings()\<close>, a query
  with a lookup, built at import; the body of \<open>ListingDetailView\<close> holds
  \<open>queryset = Listing.objects.all()\<close>, which has no lookup and builds.
\<close>

definition property_views_import :: "Manager \<Rightarrow> py_error + unit" where
  "property_views_import objects = resolve_lookups objects"

text \<open>
  \<open>get_object\<close> of the detail view looks the listing up in the view's queryset by
  \<open>listing_id\<close>; the lookup is resolved through the manager the queryset came from.
\<close>

definition ListingDetailView_get_object ::
  "Manager \<Rightarrow> uuid \<Rightarrow> 'a Listing_scheme list \<Rightarrow> py_error + 'a Listing_scheme option" where
  "ListingDetailView_get_object objects lid rows =
     (case resolve_lookups objects of
        Inl e \<Rightarrow> Inl e
      | Inr u \<Rightarrow> Inr (get_object_or_404 (\<lambda>l. listing_id l = lid) rows))"

text \<open>
  \<open>ListingDetailView.get\<close> (property/views.py); \<open>objects\<close> is the manager behind the view's
  queryset. The view declares no permission class. The response is the status and the
  body; the body of a successful response is the serialized listing. After the save the
  inherited \<open>get\<close> fetches the listing again and serializes it. An exception that escapes
  the handler is answered with 500.
\<close>

definition ListingDetailView_get ::
  "Manager \<Rightarrow> uuid \<Rightarrow> 'a property_db
     \<Rightarrow> (http_status \<times> 'a Listing_scheme option) \<times> 'a property_db" where
  "ListingDetailView_get objects lid db =
     (let cache_key = ''listing_detail_'' @ lid
      in case cache_get cache_key (cache db) of
           Some cached_data \<Rightarrow> ((HTTP_200_OK, Some cached_data), db)
         | None \<Rightarrow>
             (case ListingDetailView_get_object objects lid (listings db) of
                Inl e \<Rightarrow> ((HTTP_500_INTERNAL_SERVER_ERROR, None), db)
              | Inr None \<Rightarrow> ((HTTP_404_NOT_FOUND, None), db)
              | Inr (Some instance) \<Rightarrow>
                  (case Listing_save [''views_count'']
                          (instance\<lparr>views_count := views_count instance + 1\<rparr>) (listings db) of
                     Inl e \<Rightarrow> ((HTTP_500_INTERNAL_SERVER_ERROR, None), db)
                   | Inr (saved, rows) \<Rightarrow>
                       (case ListingDetailView_get_object objects lid rows of
                          Inl e \<Rightarrow>
                            ((HTTP_500_INTERNAL_SERVER_ERROR, None), db\<lparr>listings := rows\<rparr>)
                        | Inr None \<Rightarrow> ((HTTP_404_NOT_FOUND, None), db\<lparr>listings := rows\<rparr>)
                        | Inr (Some obj) \<Rightarrow>
                            ((HTTP_200_OK, Some obj),
                             db\<lparr>listings := rows,
                                cache := cache_set cache_key obj (cache db)\<rparr>)))))"










definition cached_db :: "unit property_db" where
  "cached_db = nyc_db\<lparr>cache := [(''listing_detail_l1'', nyc_listing)]\<rparr>"


section \<open>Properties of the proximity filter\<close>

text \<open>
  On a bound manager the lookups resolve, the division by 111 never raises, and the five
  lookups of \<open>within_radius\<close> (the four of \<open>nearby_users\<close>) amount to one selection
  predicate on the rows, whose bounds are the floats that the arguments evaluate to. On an
  unbound manager \<open>filter\<close> raises whatever the arguments are.
\<close>

lemma manager_filter_bound:
  "model self = Some m \<Longrightarrow> manager_filter self conds rows = Inr (qs_filter conds rows)"
  by (simp add: manager_filter_def resolve_lookups_def)

lemma manager_filter_unbound:
  "model self = None \<Longrightarrow> manager_filter self conds rows = Inl FieldError"
  by (simp add: manager_filter_def resolve_lookups_def)

lemma within_radius_bound:
  "within_radius bound_ListingManager rnd db lat lon r =
     Inr (filter (\<lambda>l. Listing.is_active l \<and>
            (case listing_address db l of
               None \<Rightarrow> False
             | Some a \<Rightarrow>
                 float_sub rnd lat (rnd (r / 111)) \<le> latitude a \<and>
                 latitude a \<le> float_add rnd lat (rnd (r / 111)) \<and>
                 float_sub rnd lon (rnd (r / 111)) \<le> longitude a \<and>
                 longitude a \<le> float_add rnd lon (rnd (r / 111))))
          (listings db))"
proof -
  have d: "py_truediv rnd r 111 = Inr (rnd (r / 111))"
    by (simp add: py_truediv_def)
  have b: "model bound_ListingManager = Some ''Listing''"
    by (simp add: bound_ListingManager_def)
  show ?thesis
    unfolding within_radius_def d manager_filter_bound [OF b] qs_filter_def
      property__address__latitude_def property__address__longitude_def
    by (auto intro!: filter_cong split: option.splits)
qed

lemma within_radius_unbound:
  "within_radius Listing_objects rnd db lat lon r = Inl FieldError"
proof -
  have d: "py_truediv rnd r 111 = Inr (rnd (r / 111))"
    by (simp add: py_truediv_def)
  have u: "model Listing_objects = None"
    by (simp add: Listing_objects_def)
  show ?thesis
    unfolding within_radius_def d manager_filter_unbound [OF u] by simp
qed

lemma nearby_users_eq:
  "nearby_users User_objects rnd users lat lon r =
     Inr (filter (\<lambda>u.
            (case primary_location_latitude u of
               None \<Rightarrow> False
             | Some a \<Rightarrow> float_sub rnd lat (rnd (r / 111)) \<le> a \<and>
                         a \<le> float_add rnd lat (rnd (r / 111))) \<and>
            (case primary_location_longitude u of
               None \<Rightarrow> False
             | Some b \<Rightarrow> float_sub rnd lon (rnd (r / 111)) \<le> b \<and>
                         b \<le> float_add rnd lon (rnd (r / 111))))
          users)"
proof -
  have d: "py_truediv rnd r 111 = Inr (rnd (r / 111))"
    by (simp add: py_truediv_def)
  have b: "model User_objects = Some ''User''"
    by (simp add: User_objects_def)
  show ?thesis
    unfolding nearby_users_def d manager_filter_bound [OF b] qs_filter_def
    by (auto intro!: filter_cong split: option.splits)
qed


lemma round9_delta: "round9 (5 / 111) = 0.045045045"
  by (simp add: round9_def quantize_def round_half_even_def Let_def)





text \<open>
  Claim C9 asks that the proximity filter never raises, whatever the coordinates. As
  shipped, \<open>Listing.objects.within_radius\<close> raises \<open>FieldError\<close> for every centre and
  radius, because the manager is unbound; the sibling \<open>nearby_users\<close>, on its bound
  manager, returns a selection of the users for every centre and radius.
\<close>

theorem within_radius_shipped_raises:
  "within_radius Listing_objects rnd db lat lon r = Inl FieldError \<and>
   (\<exists>us. nearby_users User_objects rnd users lat lon r = Inr us \<and> set us \<subseteq> set users)"
  unfolding within_radius_unbound nearby_users_eq by simp

text \<open>
  No range is validated where the filter runs: a centre at latitude 95 and longitude 200
  selects the user stored there. On a bound manager \<open>within_radius\<close> returns for every
  argument as well.
\<close>

lemma nearby_users_no_validation:
  "nearby_users User_objects round9 [nyc_user, far_user] 95 200 5 = Inr [far_user]"
  unfolding nearby_users_eq round9_delta
  by (simp add: float_sub_def float_add_def round9_def quantize_def round_half_even_def Let_def
      nyc_user_def far_user_def)

lemma within_radius_bound_total:
  "\<exists>ls. within_radius bound_ListingManager rnd db lat lon r = Inr ls \<and> set ls \<subseteq> set (listings db)"
  unfolding within_radius_bound by simp







section \<open>Properties of saving\<close>

text \<open>
  Saving and updating keep the primary keys of a table distinct; among rows with distinct
  keys, at most one can satisfy a condition that pins the key down.
\<close>

lemma map_pk_model_save_replace:
  "map pk (map (\<lambda>r. if pk r = pk self then self else r) rows) = map pk rows"
  by (induction rows) auto

lemma distinct_model_save:
  assumes "distinct (map pk rows)"
  shows "distinct (map pk (model_save pk self rows))"
proof (cases "list_ex (\<lambda>r. pk r = pk self) rows")
  case True
  then have "model_save pk self rows = map (\<lambda>r. if pk r = pk self then self else r) rows"
    by (simp add: model_save_def)
  then show ?thesis
    using assms by (simp only: map_pk_model_save_replace)
next
  case False
  then show ?thesis
    using assms by (auto simp: model_save_def list_ex_iff)
qed

lemma map_pk_qs_update:
  "(\<And>r. pk (upd r) = pk r) \<Longrightarrow> map pk (qs_update sel upd rows) = map pk rows"
  unfolding qs_update_def by (induction rows) auto

lemma at_most_one_selected:
  "distinct (map pk rows) \<Longrightarrow> (\<And>r. r \<in> set rows \<Longrightarrow> P r \<Longrightarrow> pk r = k)
     \<Longrightarrow> length (filter P rows) \<le> 1"
proof (induction rows)
  case Nil
  then show ?case by simp
next
  case (Cons r rs)
  show ?case
  proof (cases "P r")
    case True
    then have "pk r = k" using Cons.prems(2) by simp
    have "filter P rs = []"
    proof (rule ccontr)
      assume "filter P rs \<noteq> []"
      then obtain x where "x \<in> set rs" and "P x"
        by (metis filter_False)
      then have "pk x = pk r" using Cons.prems(2) \<open>pk r = k\<close> by simp
      moreover have "pk x \<in> set (map pk rs)" using \<open>x \<in> set rs\<close> by simp
      ultimately show False using Cons.prems(1) by simp
    qed
    then show ?thesis using True by simp
  next
    case False
    then show ?thesis using Cons by simp
  qed
qed

lemma SystemConfig_save_distinct:
  "distinct (map config_id rows) \<Longrightarrow> distinct (map config_id (snd (SystemConfig_save c rows)))"
  unfolding SystemConfig_save_def Let_def
  by (simp add: distinct_model_save map_pk_qs_update)

lemma SystemConfig_save_deactivates:
  assumes "SystemConfig.is_active c" and "r \<in> set (snd (SystemConfig_save c rows))"
    and "SystemConfig.is_active r"
  shows "config_id r = config_id c"
  using assms
  unfolding SystemConfig_save_def Let_def model_save_def qs_update_def
  by (auto split: if_splits)

lemma filter_replace_inactive_le:
  "\<not> P self \<Longrightarrow>
   length (filter P (map (\<lambda>r. if pk r = pk self then self else r) rows)) \<le> length (filter P rows)"
  by (induction rows) auto

lemma SystemConfig_save_inactive_count:
  assumes "\<not> SystemConfig.is_active c"
  shows "length (filter SystemConfig.is_active (snd (SystemConfig_save c rows)))
           \<le> length (filter SystemConfig.is_active rows)"
  using assms filter_replace_inactive_le [of SystemConfig.is_active c config_id rows]
  unfolding SystemConfig_save_def Let_def model_save_def
  by auto

lemma SystemConfig_save_invariant:
  assumes "distinct (map config_id rows)"
    and "length (filter SystemConfig.is_active rows) \<le> 1"
  shows "length (filter SystemConfig.is_active (snd (SystemConfig_save c rows))) \<le> 1"
proof (cases "SystemConfig.is_active c")
  case True
  show ?thesis
  proof (rule at_most_one_selected [where pk = config_id and k = "config_id c"])
    show "distinct (map config_id (snd (SystemConfig_save c rows)))"
      using assms(1) by (rule SystemConfig_save_distinct)
  next
    fix r
    assume "r \<in> set (snd (SystemConfig_save c rows))" and "SystemConfig.is_active r"
    then show "config_id r = config_id c"
      using True SystemConfig_save_deactivates by blast
  qed
next
  case False
  then show ?thesis
    using SystemConfig_save_inactive_count [of c rows] assms(2) by linarith
qed

lemma save_all_invariant:
  "distinct (map config_id rows) \<Longrightarrow> length (filter SystemConfig.is_active rows) \<le> 1
     \<Longrightarrow> distinct (map config_id (save_all cs rows)) \<and>
         length (filter SystemConfig.is_active (save_all cs rows)) \<le> 1"
proof (induction cs arbitrary: rows)
  case Nil
  then show ?case by simp
next
  case (Cons c cs)
  show ?case
    using Cons.IH [OF SystemConfig_save_distinct [OF Cons.prems(1)]
        SystemConfig_save_invariant [OF Cons.prems]]
    by simp
qed

text \<open>
  Claim C3. In a table whose primary keys are distinct and that has at most one active
  configuration, any sequence of \<open>SystemConfig.save\<close> calls, failed ones included,
  leaves at most one row with \<open>is_active = True\<close>; and a save of an instance with
  \<open>is_active = True\<close> leaves no other row active.
\<close>

theorem SystemConfig_at_most_one_active:
  assumes "distinct (map config_id rows)"
    and "length (filter SystemConfig.is_active rows) \<le> 1"
  shows "length (filter SystemConfig.is_active (save_all cs rows)) \<le> 1 \<and>
         distinct (map config_id (save_all cs rows)) \<and>
         (SystemConfig.is_active c \<longrightarrow>
            (\<forall>r \<in> set (snd (SystemConfig_save c rows)).
               SystemConfig.is_active r \<longrightarrow> config_id r = config_id c))"
  using save_all_invariant [OF assms] SystemConfig_save_deactivates by blast

text \<open>
  Saving a second active configuration deactivates the first; saving the first again,
  still active in memory, deactivates the second.
\<close>

theorem SystemConfig_at_most_one_active_witness:
  "distinct (map config_id [config_v1]) \<and>
   length (filter SystemConfig.is_active [config_v1]) \<le> 1 \<and>
   save_all [config_v2, config_v1\<lparr>maintenance_mode := True\<rparr>] [config_v1] =
     [config_v1\<lparr>maintenance_mode := True\<rparr>, config_v2\<lparr>SystemConfig.is_active := False\<rparr>] \<and>
   length (filter SystemConfig.is_active
     (save_all [config_v2, config_v1\<lparr>maintenance_mode := True\<rparr>] [config_v1])) \<le> 1 \<and>
   snd (SystemConfig_save config_v2 [config_v1]) =
     [config_v1\<lparr>SystemConfig.is_active := False\<rparr>, config_v2]"
proof -
  have h1: "distinct (map config_id [config_v1])" by simp
  have h2: "length (filter SystemConfig.is_active [config_v1]) \<le> 1" by simp
  have e: "save_all [config_v2, config_v1\<lparr>maintenance_mode := True\<rparr>] [config_v1] =
     [config_v1\<lparr>maintenance_mode := True\<rparr>, config_v2\<lparr>SystemConfig.is_active := False\<rparr>]"
    by (simp add: SystemConfig_save_def SystemConfig_unique_violation_def model_save_def
        qs_update_def config_v1_def config_v2_def)
  have s: "snd (SystemConfig_save config_v2 [config_v1]) =
     [config_v1\<lparr>SystemConfig.is_active := False\<rparr>, config_v2]"
    by (simp add: SystemConfig_save_def SystemConfig_unique_violation_def model_save_def
        qs_update_def config_v1_def config_v2_def)
  show ?thesis
    using SystemConfig_at_most_one_active [OF h1 h2,
        of "[config_v2, config_v1\<lparr>maintenance_mode := True\<rparr>]" config_v2] h1 h2 e s
    by simp
qed

text \<open>A saved instance is the row found under its primary key.\<close>

lemma get_by_pk_model_save:
  "get_by_pk pk (pk self) (model_save pk self rows) = Some self"
proof (cases "list_ex (\<lambda>r. pk r = pk self) rows")
  case True
  then show ?thesis
    unfolding model_save_def get_by_pk_def
    by (induction rows) auto
next
  case False
  then show ?thesis
    unfolding model_save_def get_by_pk_def
    by (induction rows) auto
qed

text \<open>
  Rounding to the column's two places never leaves the interval between two integers, so
  an amount of at most 13 digits before the point fits the column; the amounts that the
  rounding fixes are closed under subtraction; and the decimal context returns the exact
  difference of two amounts of at most 13 digits before the point and 15 after it.
\<close>

lemma round_half_even_of_int: "round_half_even (of_int n) = n"
  by (simp add: round_half_even_def)

lemma round_half_even_cases:
  "round_half_even x = \<lfloor>x\<rfloor> \<or>
   (round_half_even x = \<lfloor>x\<rfloor> + 1 \<and> of_int \<lfloor>x\<rfloor> + 1 / 2 \<le> x)"
  by (auto simp: round_half_even_def Let_def)

lemma round_half_even_le:
  assumes "x \<le> of_int n"
  shows "round_half_even x \<le> n"
proof -
  have f: "\<lfloor>x\<rfloor> \<le> n"
    using assms by (simp add: floor_le_iff)
  from round_half_even_cases [of x] show ?thesis
  proof
    assume "round_half_even x = \<lfloor>x\<rfloor>"
    then show ?thesis using f by simp
  next
    assume h: "round_half_even x = \<lfloor>x\<rfloor> + 1 \<and> of_int \<lfloor>x\<rfloor> + 1 / 2 \<le> x"
    then have "(of_int \<lfloor>x\<rfloor> :: real) < of_int n"
      using assms by linarith
    then have "\<lfloor>x\<rfloor> < n" by simp
    then show ?thesis using h by simp
  qed
qed

lemma round_half_even_ge:
  assumes "of_int n \<le> x"
  shows "n \<le> round_half_even x"
proof -
  have "n \<le> \<lfloor>x\<rfloor>"
    using assms by (simp add: le_floor_iff)
  then show ?thesis
    using round_half_even_cases [of x] by auto
qed

lemma quantize_abs_le:
  assumes "\<bar>x\<bar> \<le> of_int n"
  shows "\<bar>quantize 2 x\<bar> * 10 ^ 2 \<le> of_int (n * 100)"
proof -
  have "x * 100 \<le> of_int (n * 100)" and "of_int (- (n * 100)) \<le> x * 100"
    using assms by (simp_all add: abs_le_iff)
  then have "round_half_even (x * 100) \<le> n * 100" and "- (n * 100) \<le> round_half_even (x * 100)"
    using round_half_even_le round_half_even_ge by blast+
  then have "\<bar>round_half_even (x * 100)\<bar> \<le> n * 100"
    by simp
  then have "\<bar>of_int (round_half_even (x * 100)) :: real\<bar> \<le> of_int (n * 100)"
    by (metis of_int_abs of_int_le_iff)
  then show ?thesis
    by (simp add: quantize_def)
qed

lemma DecimalField_to_db_fits:
  assumes "\<bar>x\<bar> \<le> 2 * 10 ^ 12"
  shows "DecimalField_to_db 15 2 x = Inr (quantize 2 x)"
proof -
  have "\<bar>x\<bar> \<le> of_int (2 * 10 ^ 12)"
    using assms by simp
  then have "\<bar>quantize 2 x\<bar> * 10 ^ 2 \<le> of_int (2 * 10 ^ 12 * 100)"
    by (rule quantize_abs_le)
  then have "\<bar>quantize 2 x\<bar> * 10 ^ 2 < 10 ^ 15"
    by simp
  then show ?thesis
    by (simp add: DecimalField_to_db_def Let_def)
qed

lemma quantize_difference:
  assumes "quantize 2 b = b" and "quantize 2 t = t"
  shows "quantize 2 (b - t) = b - t"
proof -
  define m where "m = round_half_even (b * 100)"
  define n where "n = round_half_even (t * 100)"
  have b: "b * 100 = of_int m" and t: "t * 100 = of_int n"
    using assms by (simp_all add: quantize_def m_def n_def field_simps)
  have "(b - t) * 100 = of_int (m - n)"
    using b t by (simp add: algebra_simps)
  then have "round_half_even ((b - t) * 100) = m - n"
    using round_half_even_of_int [of "m - n"] by simp
  then have "quantize 2 (b - t) = of_int (m - n) / 100"
    by (simp add: quantize_def)
  also have "\<dots> = b - t"
    using b t by (simp add: field_simps)
  finally show ?thesis .
qed

lemma round_significant_exact:
  assumes "x * 10 ^ p \<in> \<int>" and "\<bar>x\<bar> < 10 ^ (28 - p)" and "p \<le> 28"
  shows "round_significant 10 28 x = x"
proof (cases "x = 0")
  case True
  then show ?thesis by (simp add: round_significant_def)
next
  case False
  define k where "k = 28 - (\<lfloor>log 10 \<bar>x\<bar>\<rfloor> + 1)"
  have pos: "0 < \<bar>x\<bar>" using False by simp
  have "\<bar>x\<bar> < 10 powr real (28 - p)"
    using assms(2) by (simp add: powr_realpow)
  then have "log 10 \<bar>x\<bar> < real (28 - p)"
    using pos by (simp add: log_less_iff)
  then have "\<lfloor>log 10 \<bar>x\<bar>\<rfloor> < int (28 - p)"
    by (simp add: floor_less_iff)
  then have kp: "int p \<le> k"
    using assms(3) by (simp add: k_def)
  then have k0: "0 \<le> k" by simp
  have s: "(10::real) powr of_int k = 10 ^ nat k"
    using k0 by (simp add: powr_int)
  obtain c :: int where c: "x * 10 ^ p = of_int c"
    using assms(1) by (auto elim: Ints_cases)
  have "nat k = p + (nat k - p)"
    using kp by simp
  then have "(10::real) ^ nat k = 10 ^ p * 10 ^ (nat k - p)"
    by (metis power_add)
  then have "x * 10 ^ nat k = of_int (c * 10 ^ (nat k - p))"
    using c by (simp add: mult.assoc [symmetric])
  then have r: "round_half_even (x * 10 ^ nat k) = c * 10 ^ (nat k - p)"
    using round_half_even_of_int by metis
  have "round_significant 10 28 x =
          of_int (round_half_even (x * 10 ^ nat k)) / 10 ^ nat k"
    using False s by (simp add: round_significant_def k_def Let_def)
  also have "\<dots> = x * 10 ^ nat k / 10 ^ nat k"
    unfolding r using \<open>x * 10 ^ nat k = of_int (c * 10 ^ (nat k - p))\<close> by simp
  also have "\<dots> = x"
    by simp
  finally show ?thesis .
qed

lemma py_sub_decimal_exact:
  assumes "b * 10 ^ 15 \<in> \<int>" and "t * 10 ^ 15 \<in> \<int>"
    and "\<bar>b\<bar> \<le> 10 ^ 12" and "\<bar>t\<bar> \<le> 10 ^ 12"
  shows "py_sub (PyDecimal b) (PyDecimal t) = Inr (PyDecimal (b - t))"
proof -
  have "(b - t) * 10 ^ 15 = b * 10 ^ 15 - t * 10 ^ 15"
    by (simp add: algebra_simps)
  then have i: "(b - t) * 10 ^ 15 \<in> \<int>"
    using assms(1,2) by simp
  have "\<bar>b - t\<bar> \<le> 2 * 10 ^ 12"
    using assms(3,4) by linarith
  then have m: "\<bar>b - t\<bar> < 10 ^ (28 - 15)"
    by simp
  have "round_significant 10 28 (b - t) = b - t"
    using i m by (rule round_significant_exact) simp
  then show ?thesis by simp
qed

lemma get_by_pk_model_save_fields:
  "pk r = k \<Longrightarrow> get_by_pk pk k (model_save pk r rows) = Some r"
  using get_by_pk_model_save [of pk r rows] by simp

lemma AdCampaign_save_decimal:
  assumes "budget self = Some (PyDecimal b)" and "total_spent self = Some (PyDecimal t)"
    and "\<bar>b\<bar> \<le> 10 ^ 12" and "\<bar>t\<bar> \<le> 10 ^ 12"
    and "b * 10 ^ 15 \<in> \<int>" and "t * 10 ^ 15 \<in> \<int>"
  shows "AdCampaign_save self rows =
           Inr (self\<lparr>remaining_budget := Some (PyDecimal (b - t))\<rparr>,
                model_save campaign_id
                  (self\<lparr>budget := Some (PyDecimal (quantize 2 b)),
                        total_spent := Some (PyDecimal (quantize 2 t)),
                        remaining_budget := Some (PyDecimal (quantize 2 (b - t)))\<rparr>)
                  rows)"
proof -
  let ?self1 = "self\<lparr>remaining_budget := Some (PyDecimal (b - t))\<rparr>"
  have fb: "DecimalField_to_db 15 2 b = Inr (quantize 2 b)"
    and ft: "DecimalField_to_db 15 2 t = Inr (quantize 2 t)"
    and fr: "DecimalField_to_db 15 2 (b - t) = Inr (quantize 2 (b - t))"
    using assms(3,4) by (auto intro!: DecimalField_to_db_fits)
  have sub: "py_sub (PyDecimal b) (PyDecimal t) = Inr (PyDecimal (b - t))"
    using assms(5,6,3,4) by (rule py_sub_decimal_exact)
  have base: "AdCampaign_base_save ?self1 rows =
                Inr (?self1,
                     model_save campaign_id
                       (self\<lparr>budget := Some (PyDecimal (quantize 2 b)),
                             total_spent := Some (PyDecimal (quantize 2 t)),
                             remaining_budget := Some (PyDecimal (quantize 2 (b - t)))\<rparr>)
                       rows)"
    using assms(1,2) by (simp add: AdCampaign_base_save_def prep_amount_def fb ft fr)
  show ?thesis
    using assms(1,2) base by (simp add: AdCampaign_save_def sub del: py_sub.simps)
qed

text \<open>
  Claim C4, as the code has it by design. For every campaign whose \<open>budget\<close> and
  \<open>total_spent\<close> are decimals of at most \<open>10^12\<close> in absolute value and at most 15 decimal
  places, \<open>save\<close> returns; the instance gets \<open>remaining_budget = budget - total_spent\<close>, and
  the stored row holds the three amounts rounded half-even to two decimal places, so the
  stored \<open>remaining_budget\<close> is \<open>budget - total_spent\<close> rounded. When \<open>budget\<close> and
  \<open>total_spent\<close> have no more than two decimal places, the stored \<open>remaining_budget\<close> is the
  stored \<open>budget\<close> minus the stored \<open>total_spent\<close>.
\<close>

theorem AdCampaign_save_remaining_budget:
  assumes "budget self = Some (PyDecimal b)" and "total_spent self = Some (PyDecimal t)"
    and "\<bar>b\<bar> \<le> 10 ^ 12" and "\<bar>t\<bar> \<le> 10 ^ 12"
    and "b * 10 ^ 15 \<in> \<int>" and "t * 10 ^ 15 \<in> \<int>"
  shows "\<exists>rows' row.
           AdCampaign_save self rows =
             Inr (self\<lparr>remaining_budget := Some (PyDecimal (b - t))\<rparr>, rows') \<and>
           get_by_pk campaign_id (campaign_id self) rows' = Some row \<and>
           budget row = Some (PyDecimal (quantize 2 b)) \<and>
           total_spent row = Some (PyDecimal (quantize 2 t)) \<and>
           remaining_budget row = Some (PyDecimal (quantize 2 (b - t))) \<and>
           (quantize 2 b = b \<and> quantize 2 t = t \<longrightarrow>
              remaining_budget row = Some (PyDecimal (quantize 2 b - quantize 2 t)))"
proof -
  let ?row = "self\<lparr>budget := Some (PyDecimal (quantize 2 b)),
                    total_spent := Some (PyDecimal (quantize 2 t)),
                    remaining_budget := Some (PyDecimal (quantize 2 (b - t)))\<rparr>"
  have save: "AdCampaign_save self rows =
                Inr (self\<lparr>remaining_budget := Some (PyDecimal (b - t))\<rparr>,
                     model_save campaign_id ?row rows)"
    using assms by (rule AdCampaign_save_decimal)
  have found: "get_by_pk campaign_id (campaign_id self) (model_save campaign_id ?row rows) = Some ?row"
    by (rule get_by_pk_model_save_fields) simp
  have grid: "quantize 2 b = b \<and> quantize 2 t = t \<longrightarrow>
              remaining_budget ?row = Some (PyDecimal (quantize 2 b - quantize 2 t))"
    using quantize_difference [of b t] by simp
  show ?thesis
    using save found grid by (intro exI [of _ "model_save campaign_id ?row rows"] exI [of _ ?row]) simp
qed

text \<open>A budget of 100 with 30.50 spent is stored with 69.50 remaining.\<close>

theorem AdCampaign_save_remaining_budget_witness:
  "budget spring_campaign = Some (PyDecimal 100) \<and>
   total_spent spring_campaign = Some (PyDecimal 30.5) \<and>
   \<bar>100 :: real\<bar> \<le> 10 ^ 12 \<and> \<bar>30.5 :: real\<bar> \<le> 10 ^ 12 \<and>
   (100 :: real) * 10 ^ 15 \<in> \<int> \<and> (30.5 :: real) * 10 ^ 15 \<in> \<int> \<and>
   quantize 2 100 = 100 \<and> quantize 2 30.5 = 30.5 \<and>
   (\<exists>rows' row.
      AdCampaign_save spring_campaign [] =
        Inr (spring_campaign\<lparr>remaining_budget := Some (PyDecimal 69.5)\<rparr>, rows') \<and>
      get_by_pk campaign_id ''k1'' rows' = Some row \<and>
      budget row = Some (PyDecimal 100) \<and> total_spent row = Some (PyDecimal 30.5) \<and>
      remaining_budget row = Some (PyDecimal 69.5))"
proof -
  have h1: "budget spring_campaign = Some (PyDecimal 100)"
    and h2: "total_spent spring_campaign = Some (PyDecimal 30.5)"
    and id: "campaign_id spring_campaign = ''k1''"
    by (simp_all add: spring_campaign_def)
  have h3: "\<bar>100 :: real\<bar> \<le> 10 ^ 12" and h4: "\<bar>30.5 :: real\<bar> \<le> 10 ^ 12"
    by simp_all
  have h5: "(100 :: real) * 10 ^ 15 \<in> \<int>" and h6: "(30.5 :: real) * 10 ^ 15 \<in> \<int>"
    by simp_all
  have q: "quantize 2 100 = 100" "quantize 2 30.5 = 30.5"
    by (simp_all add: quantize_def round_half_even_def Let_def)
  have d: "(100 :: real) - 30.5 = 69.5"
    by simp
  from AdCampaign_save_remaining_budget [OF h1 h2 h3 h4 h5 h6, of "[]"]
  obtain rows' row where
    "AdCampaign_save spring_campaign [] =
       Inr (spring_campaign\<lparr>remaining_budget := Some (PyDecimal (100 - 30.5))\<rparr>, rows')"
    and "get_by_pk campaign_id (campaign_id spring_campaign) rows' = Some row"
    and "budget row = Some (PyDecimal (quantize 2 100))"
    and "total_spent row = Some (PyDecimal (quantize 2 30.5))"
    and "quantize 2 100 = 100 \<and> quantize 2 30.5 = 30.5 \<longrightarrow>
           remaining_budget row = Some (PyDecimal (quantize 2 100 - quantize 2 30.5))"
    by blast
  then have "AdCampaign_save spring_campaign [] =
        Inr (spring_campaign\<lparr>remaining_budget := Some (PyDecimal 69.5)\<rparr>, rows') \<and>
      get_by_pk campaign_id ''k1'' rows' = Some row \<and>
      budget row = Some (PyDecimal 100) \<and> total_spent row = Some (PyDecimal 30.5) \<and>
      remaining_budget row = Some (PyDecimal 69.5)"
    unfolding id q d by simp
  then show ?thesis
    using h1 h2 h3 h4 h5 h6 q by blast
qed

text \<open>
  Claim C4 as written equates the stored \<open>remaining_budget\<close> with \<open>budget - total_spent\<close>.
  An instance with a budget of 100.004 and 0.006 spent is stored as 100.00, 0.01 and
  100.00: the stored remainder is neither the difference of the instance's amounts, 99.998,
  nor that of the stored ones, 99.99.
\<close>

theorem AdCampaign_save_rounding_counterexample:
  "budget fine_campaign = Some (PyDecimal 100.004) \<and>
   total_spent fine_campaign = Some (PyDecimal 0.006) \<and>
   AdCampaign_save fine_campaign [] =
     Inr (fine_campaign\<lparr>remaining_budget := Some (PyDecimal 99.998)\<rparr>,
          [fine_campaign\<lparr>budget := Some (PyDecimal 100), total_spent := Some (PyDecimal 0.01),
             remaining_budget := Some (PyDecimal 100)\<rparr>]) \<and>
   (100 :: real) \<noteq> 100.004 - 0.006 \<and> (100 :: real) \<noteq> 100 - 0.01"
proof -
  have h1: "budget fine_campaign = Some (PyDecimal 100.004)"
    and h2: "total_spent fine_campaign = Some (PyDecimal 0.006)"
    by (simp_all add: fine_campaign_def)
  have q: "quantize 2 100.004 = 100" "quantize 2 0.006 = 0.01" "quantize 2 99.998 = 100"
    by (simp_all add: quantize_def round_half_even_def Let_def)
  have d: "(100.004 :: real) - 0.006 = 99.998"
    by simp
  have "AdCampaign_save fine_campaign [] =
     Inr (fine_campaign\<lparr>remaining_budget := Some (PyDecimal (100.004 - 0.006))\<rparr>,
          model_save campaign_id
            (fine_campaign\<lparr>budget := Some (PyDecimal (quantize 2 100.004)),
               total_spent := Some (PyDecimal (quantize 2 0.006)),
               remaining_budget := Some (PyDecimal (quantize 2 (100.004 - 0.006)))\<rparr>)
            [])"
    using h1 h2 by (rule AdCampaign_save_decimal) simp_all
  then have "AdCampaign_save fine_campaign [] =
     Inr (fine_campaign\<lparr>remaining_budget := Some (PyDecimal 99.998)\<rparr>,
          [fine_campaign\<lparr>budget := Some (PyDecimal 100), total_spent := Some (PyDecimal 0.01),
             remaining_budget := Some (PyDecimal 100)\<rparr>])"
    unfolding d q by (simp add: model_save_def)
  then show ?thesis
    using h1 h2 by simp
qed

text \<open>
  An instance that still carries the float default \<open>0.0\<close> of \<open>total_spent\<close> beside a decimal
  budget does not reach the database: the subtraction raises.
\<close>

lemma AdCampaign_save_default_float:
  assumes "budget self = Some (PyDecimal b)" and "total_spent self = Some (PyFloat 0)"
  shows "AdCampaign_save self rows = Inl TypeError"
  using assms by (simp add: AdCampaign_save_def)

section \<open>Properties of messages and of the request handlers\<close>

text \<open>
  Claim C8. On an unread message, \<open>mark_as_read\<close> sets \<open>is_read\<close>, stamps \<open>read_at\<close> with
  the current time, changes nothing else, and stores the message. On a message already
  read it returns the message and the table as they are. Hence a second call, at whatever
  later time, changes nothing: \<open>read_at\<close> keeps the time of the first call.
\<close>

theorem mark_as_read_idempotent:
  "(\<not> is_read m \<longrightarrow>
      fst (mark_as_read now m rows) = m\<lparr>is_read := True, read_at := Some now\<rparr> \<and>
      get_by_pk message_id (message_id m) (snd (mark_as_read now m rows)) =
        Some (m\<lparr>is_read := True, read_at := Some now\<rparr>)) \<and>
   (is_read m \<longrightarrow> mark_as_read now m rows = (m, rows)) \<and>
   mark_as_read later (fst (mark_as_read now m rows)) (snd (mark_as_read now m rows)) =
     mark_as_read now m rows"
proof (intro conjI impI)
  assume u: "\<not> is_read m"
  let ?m' = "m\<lparr>is_read := True, read_at := Some now\<rparr>"
  show "fst (mark_as_read now m rows) = ?m'"
    using u by (simp add: mark_as_read_def Let_def)
  have "snd (mark_as_read now m rows) = model_save message_id ?m' rows"
    using u by (simp add: mark_as_read_def Let_def)
  moreover have "get_by_pk message_id (message_id ?m') (model_save message_id ?m' rows) = Some ?m'"
    by (rule get_by_pk_model_save)
  ultimately show "get_by_pk message_id (message_id m) (snd (mark_as_read now m rows)) = Some ?m'"
    by simp
next
  assume "is_read m"
  then show "mark_as_read now m rows = (m, rows)"
    by (simp add: mark_as_read_def)
next
  show "mark_as_read later (fst (mark_as_read now m rows)) (snd (mark_as_read now m rows)) =
     mark_as_read now m rows"
    by (simp add: mark_as_read_def Let_def)
qed

text \<open>An unread message is marked at time 2000; the call at time 3000 leaves it alone.\<close>

theorem mark_as_read_idempotent_witness:
  "\<not> is_read hello_message \<and>
   mark_as_read 2000 hello_message [hello_message] =
     (hello_message\<lparr>is_read := True, read_at := Some 2000\<rparr>,
      [hello_message\<lparr>is_read := True, read_at := Some 2000\<rparr>]) \<and>
   mark_as_read 3000 (hello_message\<lparr>is_read := True, read_at := Some 2000\<rparr>)
      [hello_message\<lparr>is_read := True, read_at := Some 2000\<rparr>] =
     (hello_message\<lparr>is_read := True, read_at := Some 2000\<rparr>,
      [hello_message\<lparr>is_read := True, read_at := Some 2000\<rparr>])"
proof -
  have u: "\<not> is_read hello_message"
    by (simp add: hello_message_def)
  have e: "mark_as_read 2000 hello_message [hello_message] =
     (hello_message\<lparr>is_read := True, read_at := Some 2000\<rparr>,
      [hello_message\<lparr>is_read := True, read_at := Some 2000\<rparr>])"
    by (simp add: mark_as_read_def Let_def model_save_def hello_message_def)
  show ?thesis
    using mark_as_read_idempotent [of hello_message 2000 "[hello_message]" 3000] u e
    by simp
qed

text \<open>
  Claim C6, as the code has it. An authenticated user who is not the recipient of a message
  cannot mark it read, and one who does not own a campaign cannot update or delete it: the
  lookup is scoped to the requesting user, finds nothing, and the answer is 404 Not Found
  with the table unchanged.
\<close>

theorem non_owner_gets_404:
  assumes "Request.user request = Some u"
  shows "((\<forall>m \<in> set messages. message_id m = mid \<longrightarrow> recipient m \<noteq> u) \<longrightarrow>
            MarkMessageReadAPIView_post now request mid messages =
              (HTTP_404_NOT_FOUND, messages)) \<and>
         ((\<forall>c \<in> set campaigns. campaign_id c = cid \<longrightarrow> AdCampaign.user c \<noteq> u) \<longrightarrow>
            AdCampaignDetailAPIView_put request cid data campaigns =
              (HTTP_404_NOT_FOUND, campaigns) \<and>
            AdCampaignDetailAPIView_delete request cid campaigns =
              (HTTP_404_NOT_FOUND, campaigns))"
proof (intro conjI impI)
  assume n: "\<forall>m \<in> set messages. message_id m = mid \<longrightarrow> recipient m \<noteq> u"
  have "find (\<lambda>m. message_id m = mid \<and> Some (recipient m) = Some u) messages = None"
    using n by (auto simp: find_None_iff)
  then show "MarkMessageReadAPIView_post now request mid messages =
              (HTTP_404_NOT_FOUND, messages)"
    using assms
    by (simp add: MarkMessageReadAPIView_post_def IsAuthenticated_def get_object_or_404_def)
next
  assume n: "\<forall>c \<in> set campaigns. campaign_id c = cid \<longrightarrow> AdCampaign.user c \<noteq> u"
  have f: "find (\<lambda>c. campaign_id c = cid)
             (filter (\<lambda>c. Some (AdCampaign.user c) = Some u) campaigns) = None"
    using n by (auto simp: find_None_iff)
  show "AdCampaignDetailAPIView_put request cid data campaigns =
              (HTTP_404_NOT_FOUND, campaigns)"
    using assms f
    by (simp add: AdCampaignDetailAPIView_put_def IsAuthenticated_def get_object_or_404_def
        AdCampaignDetailAPIView_get_queryset_def)
  show "AdCampaignDetailAPIView_delete request cid campaigns =
              (HTTP_404_NOT_FOUND, campaigns)"
    using assms f
    by (simp add: AdCampaignDetailAPIView_delete_def IsAuthenticated_def get_object_or_404_def
        AdCampaignDetailAPIView_get_queryset_def)
qed

text \<open>User u3 is a stranger to message m1 (from u1 to u2) and to campaign k1 (of u1).\<close>

theorem non_owner_gets_404_witness:
  "Request.user \<lparr>user = Some ''u3''\<rparr> = Some ''u3'' \<and>
   MarkMessageReadAPIView_post 2000 \<lparr>user = Some ''u3''\<rparr> ''m1'' [hello_message] =
     (HTTP_404_NOT_FOUND, [hello_message]) \<and>
   AdCampaignDetailAPIView_put \<lparr>user = Some ''u3''\<rparr> ''k1'' spring_data [spring_campaign] =
     (HTTP_404_NOT_FOUND, [spring_campaign]) \<and>
   AdCampaignDetailAPIView_delete \<lparr>user = Some ''u3''\<rparr> ''k1'' [spring_campaign] =
     (HTTP_404_NOT_FOUND, [spring_campaign])"
proof -
  have h: "Request.user \<lparr>user = Some ''u3''\<rparr> = Some ''u3''" by simp
  have m: "\<forall>m \<in> set [hello_message]. message_id m = ''m1'' \<longrightarrow> recipient m \<noteq> ''u3''"
    by (simp add: hello_message_def)
  have c: "\<forall>c \<in> set [spring_campaign]. campaign_id c = ''k1'' \<longrightarrow> AdCampaign.user c \<noteq> ''u3''"
    by (simp add: spring_campaign_def)
  show ?thesis
    using non_owner_gets_404 [OF h, where messages = "[hello_message]" and mid = "''m1''"
        and campaigns = "[spring_campaign]" and cid = "''k1''" and now = 2000
        and data = spring_data] m c
    by simp
qed

text \<open>
  Claim C6 as written announces 403 for these two requests; the status is not 403.
\<close>

theorem non_owner_403_counterexample:
  "recipient hello_message \<noteq> ''u3'' \<and> sender hello_message \<noteq> ''u3'' \<and>
   fst (MarkMessageReadAPIView_post 2000 \<lparr>user = Some ''u3''\<rparr> ''m1'' [hello_message])
     \<noteq> HTTP_403_FORBIDDEN \<and>
   AdCampaign.user spring_campaign \<noteq> ''u3'' \<and>
   fst (AdCampaignDetailAPIView_put \<lparr>user = Some ''u3''\<rparr> ''k1'' spring_data [spring_campaign])
     \<noteq> HTTP_403_FORBIDDEN"
  by (simp add: MarkMessageReadAPIView_post_def AdCampaignDetailAPIView_put_def
      IsAuthenticated_def get_object_or_404_def AdCampaignDetailAPIView_get_queryset_def
      hello_message_def spring_campaign_def)

text \<open>The owner's update goes through, so the handler is not a stub that always fails.\<close>

lemma owner_put_succeeds:
  "AdCampaignDetailAPIView_put \<lparr>user = Some ''u1''\<rparr> ''k1'' spring_data [spring_campaign] =
     (HTTP_200_OK,
      [spring_campaign\<lparr>AdCampaign.name := ''summer'', budget := Some (PyDecimal 250),
         total_spent := Some (PyDecimal 0), remaining_budget := Some (PyDecimal 250)\<rparr>])"
proof -
  let ?i = "serializer_update spring_data spring_campaign"
  have i: "?i = spring_campaign\<lparr>AdCampaign.name := ''summer'', budget := Some (PyDecimal 250),
                  total_spent := Some (PyDecimal 0)\<rparr>"
    by (simp add: serializer_update_def spring_data_def)
  have q: "quantize 2 250 = 250" "quantize 2 0 = 0"
    by (simp_all add: quantize_def round_half_even_def Let_def)
  have "AdCampaign_save ?i [spring_campaign] =
     Inr (?i\<lparr>remaining_budget := Some (PyDecimal (250 - 0))\<rparr>,
          model_save campaign_id
            (?i\<lparr>budget := Some (PyDecimal (quantize 2 250)),
               total_spent := Some (PyDecimal (quantize 2 0)),
               remaining_budget := Some (PyDecimal (quantize 2 (250 - 0)))\<rparr>)
            [spring_campaign])"
    by (rule AdCampaign_save_decimal) (simp_all add: i)
  then have s: "AdCampaign_save ?i [spring_campaign] =
     Inr (?i\<lparr>remaining_budget := Some (PyDecimal 250)\<rparr>,
          [spring_campaign\<lparr>AdCampaign.name := ''summer'', budget := Some (PyDecimal 250),
             total_spent := Some (PyDecimal 0), remaining_budget := Some (PyDecimal 250)\<rparr>])"
    by (simp add: q i model_save_def)
  have g: "get_object_or_404 (\<lambda>c. campaign_id c = ''k1'')
             (AdCampaignDetailAPIView_get_queryset \<lparr>user = Some ''u1''\<rparr> [spring_campaign]) =
           Some spring_campaign"
    by (simp add: get_object_or_404_def AdCampaignDetailAPIView_get_queryset_def
        spring_campaign_def)
  have v: "is_valid spring_data"
    by (simp add: is_valid_def spring_data_def)
  show ?thesis
    by (simp add: AdCampaignDetailAPIView_put_def IsAuthenticated_def g v s)
qed

text \<open>
  Claim C7. A POST to the campaign create endpoint by an anonymous user is answered with
  403 Forbidden, and the table of campaigns is unchanged.
\<close>

theorem anonymous_create_forbidden:
  assumes "Request.user request = None"
  shows "AdCampaignListCreateAPIView_post request new_id data campaigns =
           (HTTP_403_FORBIDDEN, campaigns)"
  using assms by (simp add: AdCampaignListCreateAPIView_post_def)

text \<open>An anonymous POST against a table of one campaign.\<close>

theorem anonymous_create_forbidden_witness:
  "Request.user \<lparr>user = None\<rparr> = None \<and>
   AdCampaignListCreateAPIView_post \<lparr>user = None\<rparr> ''k2'' spring_data [spring_campaign] =
     (HTTP_403_FORBIDDEN, [spring_campaign])"
proof -
  have h: "Request.user \<lparr>user = None\<rparr> = None" by simp
  show ?thesis
    using anonymous_create_forbidden [OF h, of "''k2''" spring_data "[spring_campaign]"] h
    by simp
qed

text \<open>The same body posted by an authenticated user creates the campaign.\<close>

lemma authenticated_create_succeeds:
  "AdCampaignListCreateAPIView_post \<lparr>user = Some ''u3''\<rparr> ''k2'' spring_data [] =
     (HTTP_201_CREATED,
      [\<lparr>campaign_id = ''k2'', user = ''u3'', name = ''summer'', status = ''draft'',
        budget = Some (PyDecimal 250), total_spent = Some (PyDecimal 0),
        remaining_budget = Some (PyDecimal 250)\<rparr>])"
proof -
  let ?i = "\<lparr>campaign_id = ''k2'', user = ''u3'', name = ''summer'', status = ''draft'',
             budget = Some (PyDecimal 250), total_spent = Some (PyDecimal 0),
             remaining_budget = None\<rparr>"
  have q: "quantize 2 250 = 250" "quantize 2 0 = 0"
    by (simp_all add: quantize_def round_half_even_def Let_def)
  have "AdCampaign_save ?i [] =
     Inr (?i\<lparr>remaining_budget := Some (PyDecimal (250 - 0))\<rparr>,
          model_save campaign_id
            (?i\<lparr>budget := Some (PyDecimal (quantize 2 250)),
               total_spent := Some (PyDecimal (quantize 2 0)),
               remaining_budget := Some (PyDecimal (quantize 2 (250 - 0)))\<rparr>)
            [])"
    by (rule AdCampaign_save_decimal) simp_all
  then have s: "AdCampaign_save ?i [] =
     Inr (?i\<lparr>remaining_budget := Some (PyDecimal 250)\<rparr>,
          [\<lparr>campaign_id = ''k2'', user = ''u3'', name = ''summer'', status = ''draft'',
            budget = Some (PyDecimal 250), total_spent = Some (PyDecimal 0),
            remaining_budget = Some (PyDecimal 250)\<rparr>])"
    by (simp add: q model_save_def)
  show ?thesis
    by (simp add: AdCampaignListCreateAPIView_post_def spring_data_def is_valid_def s)
qed

section \<open>Properties of the listing detail view and of the cluster aggregator\<close>

text \<open>
  With distinct primary keys a key determines its row, so the UPDATE of one column under a
  key rewrites exactly that row.
\<close>

lemma find_by_pk_distinct:
  "distinct (map pk rows) \<Longrightarrow> r \<in> set rows \<Longrightarrow> find (\<lambda>x. pk x = pk r) rows = Some r"
proof (induction rows)
  case Nil
  then show ?case by simp
next
  case (Cons x xs)
  show ?case
  proof (cases "pk x = pk r")
    case True
    have "r = x"
    proof (rule ccontr)
      assume "r \<noteq> x"
      then have "r \<in> set xs" using Cons.prems(2) by simp
      then have "pk r \<in> set (map pk xs)" by simp
      then show False using Cons.prems(1) True by simp
    qed
    then show ?thesis by simp
  next
    case False
    then show ?thesis using Cons by auto
  qed
qed

lemma pk_eq_imp_eq:
  "distinct (map pk rows) \<Longrightarrow> r \<in> set rows \<Longrightarrow> l \<in> set rows \<Longrightarrow> pk r = pk l \<Longrightarrow> r = l"
  by (auto simp: distinct_map dest: inj_onD)

lemma write_views_count:
  "write_columns [''views_count''] src dst = dst\<lparr>views_count := views_count src\<rparr>"
  by (simp add: write_columns_def)

lemma days_on_market_frame:
  "listing_id (case cd of (Some c, Some d) \<Rightarrow> x\<lparr>days_on_market := f c d\<rparr> | _ \<Rightarrow> x) = listing_id x"
  "views_count (case cd of (Some c, Some d) \<Rightarrow> x\<lparr>days_on_market := f c d\<rparr> | _ \<Rightarrow> x) = views_count x"
  by (simp_all split: prod.splits option.splits)

lemma Listing_save_views_count:
  assumes "distinct (map listing_id rows)" and "l \<in> set rows"
  shows "\<exists>saved. Listing_save [''views_count''] (l\<lparr>views_count := views_count l + 1\<rparr>) rows =
           Inr (saved,
                map (\<lambda>r. if listing_id r = listing_id l
                          then r\<lparr>views_count := views_count r + 1\<rparr> else r) rows)"
proof -
  define l1 where "l1 = l\<lparr>views_count := views_count l + 1\<rparr>"
  define self1 where
    "self1 = (case (contract_date l1, listed_date l1) of
                (Some c, Some d) \<Rightarrow> l1\<lparr>days_on_market := (c - d) div 86400\<rparr>
              | _ \<Rightarrow> l1)"
  have id: "listing_id self1 = listing_id l"
    unfolding self1_def days_on_market_frame by (simp add: l1_def)
  have vc: "views_count self1 = views_count l + 1"
    unfolding self1_def days_on_market_frame by (simp add: l1_def)
  have ex: "list_ex (\<lambda>r. listing_id r = listing_id self1) rows"
    unfolding id using assms(2) by (auto simp: list_ex_iff)
  have m: "map (\<lambda>r. if listing_id r = listing_id self1
                     then write_columns [''views_count''] self1 r else r) rows =
           map (\<lambda>r. if listing_id r = listing_id l
                     then r\<lparr>views_count := views_count r + 1\<rparr> else r) rows"
  proof (rule map_cong)
    fix r assume r: "r \<in> set rows"
    show "(if listing_id r = listing_id self1
           then write_columns [''views_count''] self1 r else r) =
          (if listing_id r = listing_id l then r\<lparr>views_count := views_count r + 1\<rparr> else r)"
    proof (cases "listing_id r = listing_id l")
      case True
      then have "r = l"
        using pk_eq_imp_eq [OF assms(1) r assms(2)] by simp
      then show ?thesis
        unfolding id write_views_count vc by simp
    next
      case False
      then show ?thesis unfolding id by simp
    qed
  qed simp
  have "Listing_save [''views_count''] l1 rows =
          Inr (self1, map (\<lambda>r. if listing_id r = listing_id self1
                     then write_columns [''views_count''] self1 r else r) rows)"
    unfolding Listing_save_def Let_def self1_def [symmetric] using ex by simp
  then show ?thesis
    unfolding m l1_def by blast
qed

text \<open>
  Claim C10 asks that a listing-detail GET with no cache entry increments \<open>views_count\<close> by
  exactly 1. As shipped it does not: listing l1 is stored with 7 views and the cache is
  empty, \<open>get_object\<close> resolves its lookup through the unbound \<open>Listing.objects\<close> and raises,
  the request is answered with 500 and the database is unchanged, \<open>views_count\<close> still 7.
  The module of the view does not even import, for the same reason.
\<close>

theorem ListingDetailView_get_shipped_raises:
  "cache_get (''listing_detail_'' @ ''l1'') (cache nyc_db) = None \<and>
   nyc_listing \<in> set (listings nyc_db) \<and> listing_id nyc_listing = ''l1'' \<and>
   views_count nyc_listing = 7 \<and>
   ListingDetailView_get Listing_objects ''l1'' nyc_db =
     ((HTTP_500_INTERNAL_SERVER_ERROR, None), nyc_db) \<and>
   property_views_import Listing_objects = Inl FieldError"
  by (simp add: ListingDetailView_get_def ListingDetailView_get_object_def
      property_views_import_def resolve_lookups_def Listing_objects_def cache_get_def
      nyc_db_def nyc_listing_def)

text \<open>
  The rest of the claim holds of the handler as written. A cache hit is answered from the
  cache with the database untouched, whatever the manager. On a bound manager a miss
  increments \<open>views_count\<close> of the stored listing by exactly 1 and changes no other column,
  row or table: only \<open>views_count\<close> is among the updated columns.
\<close>

lemma ListingDetailView_get_hit:
  "cache_get (''listing_detail_'' @ lid) (cache db) = Some data \<Longrightarrow>
   ListingDetailView_get objects lid db = ((HTTP_200_OK, Some data), db)"
  by (simp add: ListingDetailView_get_def)

lemma ListingDetailView_get_bound_frame:
  "(cache_get (''listing_detail_'' @ lid) (cache db) = Some data \<longrightarrow>
      ListingDetailView_get bound_ListingManager lid db = ((HTTP_200_OK, Some data), db)) \<and>
   (cache_get (''listing_detail_'' @ lid) (cache db) = None \<and>
    distinct (map listing_id (listings db)) \<and> l \<in> set (listings db) \<and> listing_id l = lid \<longrightarrow>
      fst (ListingDetailView_get bound_ListingManager lid db) =
        (HTTP_200_OK, Some (l\<lparr>views_count := views_count l + 1\<rparr>)) \<and>
      listings (snd (ListingDetailView_get bound_ListingManager lid db)) =
        map (\<lambda>r. if listing_id r = lid then r\<lparr>views_count := views_count r + 1\<rparr> else r)
          (listings db) \<and>
      addresses (snd (ListingDetailView_get bound_ListingManager lid db)) = addresses db \<and>
      properties (snd (ListingDetailView_get bound_ListingManager lid db)) = properties db \<and>
      map_clusters (snd (ListingDetailView_get bound_ListingManager lid db)) = map_clusters db)"
proof (intro conjI impI)
  assume "cache_get (''listing_detail_'' @ lid) (cache db) = Some data"
  then show "ListingDetailView_get bound_ListingManager lid db = ((HTTP_200_OK, Some data), db)"
    by (simp add: ListingDetailView_get_def)
next
  assume a: "cache_get (''listing_detail_'' @ lid) (cache db) = None \<and>
    distinct (map listing_id (listings db)) \<and> l \<in> set (listings db) \<and> listing_id l = lid"
  let ?rows = "map (\<lambda>r. if listing_id r = lid then r\<lparr>views_count := views_count r + 1\<rparr> else r)
          (listings db)"
  let ?l' = "l\<lparr>views_count := views_count l + 1\<rparr>"
  from a have d: "distinct (map listing_id (listings db))" and l: "l \<in> set (listings db)"
    and lid: "listing_id l = lid" and miss: "cache_get (''listing_detail_'' @ lid) (cache db) = None"
    by simp_all
  have f: "ListingDetailView_get_object bound_ListingManager lid (listings db) = Inr (Some l)"
    using find_by_pk_distinct [OF d l] lid
    by (simp add: ListingDetailView_get_object_def resolve_lookups_def bound_ListingManager_def
        get_object_or_404_def)
  obtain saved where s: "Listing_save [''views_count''] ?l' (listings db) = Inr (saved, ?rows)"
    using Listing_save_views_count [OF d l] unfolding lid by blast
  have d': "distinct (map listing_id ?rows)"
  proof -
    have e: "map listing_id ?rows = map listing_id (listings db)"
      by simp
    show ?thesis unfolding e by (rule d)
  qed
  have "?l' \<in> set ?rows"
    using l lid by force
  then have f': "ListingDetailView_get_object bound_ListingManager lid ?rows = Inr (Some ?l')"
    using find_by_pk_distinct [OF d', of ?l'] lid
    by (simp add: ListingDetailView_get_object_def resolve_lookups_def bound_ListingManager_def
        get_object_or_404_def)
  have r: "ListingDetailView_get bound_ListingManager lid db =
             ((HTTP_200_OK, Some ?l'),
              db\<lparr>listings := ?rows,
                 cache := cache_set (''listing_detail_'' @ lid) ?l' (cache db)\<rparr>)"
    using miss f s f' by (simp add: ListingDetailView_get_def)
  show "fst (ListingDetailView_get bound_ListingManager lid db) = (HTTP_200_OK, Some ?l')"
    and "listings (snd (ListingDetailView_get bound_ListingManager lid db)) = ?rows"
    and "addresses (snd (ListingDetailView_get bound_ListingManager lid db)) = addresses db"
    and "properties (snd (ListingDetailView_get bound_ListingManager lid db)) = properties db"
    and "map_clusters (snd (ListingDetailView_get bound_ListingManager lid db)) = map_clusters db"
    unfolding r by simp_all
qed

lemma ListingDetailView_get_bound_example:
  "cache_get (''listing_detail_'' @ ''l1'') (cache cached_db) = Some nyc_listing \<and>
   ListingDetailView_get bound_ListingManager ''l1'' cached_db = ((HTTP_200_OK, Some nyc_listing), cached_db) \<and>
   cache_get (''listing_detail_'' @ ''l1'') (cache nyc_db) = None \<and>
   distinct (map listing_id (listings nyc_db)) \<and> nyc_listing \<in> set (listings nyc_db) \<and>
   listing_id nyc_listing = ''l1'' \<and>
   fst (ListingDetailView_get bound_ListingManager ''l1'' nyc_db) = (HTTP_200_OK, Some (nyc_listing\<lparr>views_count := 8\<rparr>)) \<and>
   listings (snd (ListingDetailView_get bound_ListingManager ''l1'' nyc_db)) = [nyc_listing\<lparr>views_count := 8\<rparr>]"
proof -
  have hit: "cache_get (''listing_detail_'' @ ''l1'') (cache cached_db) = Some nyc_listing"
    by (simp add: cache_get_def cached_db_def)
  have miss: "cache_get (''listing_detail_'' @ ''l1'') (cache nyc_db) = None"
    by (simp add: cache_get_def nyc_db_def)
  have rows: "listings nyc_db = [nyc_listing]"
    by (simp add: nyc_db_def)
  have id: "listing_id nyc_listing = ''l1''"
    by (simp add: nyc_listing_def)
  have vc: "views_count nyc_listing + 1 = 8"
    by (simp add: nyc_listing_def)
  have pre: "cache_get (''listing_detail_'' @ ''l1'') (cache nyc_db) = None \<and>
    distinct (map listing_id (listings nyc_db)) \<and> nyc_listing \<in> set (listings nyc_db) \<and>
    listing_id nyc_listing = ''l1''"
    using miss rows id by simp
  have a: "ListingDetailView_get bound_ListingManager ''l1'' cached_db = ((HTTP_200_OK, Some nyc_listing), cached_db)"
    using ListingDetailView_get_bound_frame [of "''l1''" cached_db nyc_listing nyc_listing] hit
    by blast
  have b: "fst (ListingDetailView_get bound_ListingManager ''l1'' nyc_db) =
             (HTTP_200_OK, Some (nyc_listing\<lparr>views_count := views_count nyc_listing + 1\<rparr>)) \<and>
           listings (snd (ListingDetailView_get bound_ListingManager ''l1'' nyc_db)) =
             map (\<lambda>r. if listing_id r = ''l1'' then r\<lparr>views_count := views_count r + 1\<rparr> else r)
               (listings nyc_db)"
    using ListingDetailView_get_bound_frame [of "''l1''" nyc_db nyc_listing nyc_listing] pre
    by blast
  show ?thesis
    using hit a pre b unfolding rows by (simp add: id vc)
qed




























end
